theory Spec2Isabelle
  imports Main
begin

section \<open>Python values, strings and outcomes\<close>

text \<open>
  The module \<^verbatim>\<open>library/dellemc_idrac_firmware_update.py\<close> validates its parameters,
  chooses between a URL update and a network-share update, calls the management SDK once
  and turns the SDK's answer into a dictionary \<^verbatim>\<open>{changed, failed, msg}\<close>.

  Strings are byte strings (\<open>char list\<close>); the patterns the module compares against
  (\<^verbatim>\<open>http://\<close>, \<^verbatim>\<open>.xml\<close>, digits, dots) are ASCII, and \<^verbatim>\<open>\d\<close> is read as
  \<^verbatim>\<open>[0-9]\<close>, as for a byte-string pattern.
\<close>

datatype pyval = PNone | PBool bool | PStr string | PDict "(string \<times> pyval) list"

text \<open>\<^verbatim>\<open>str.lower()\<close> on ASCII letters; every other byte is left as it is.\<close>

definition lower_char :: "char \<Rightarrow> char" where
  "lower_char c =
     (case map_of (zip ''ABCDEFGHIJKLMNOPQRSTUVWXYZ'' ''abcdefghijklmnopqrstuvwxyz'') c of
        Some d \<Rightarrow> d
      | None \<Rightarrow> c)"

definition lower :: "string \<Rightarrow> string" where
  "lower s = map lower_char s"

text \<open>\<^verbatim>\<open>s.startswith(p)\<close>, \<^verbatim>\<open>s.startswith((p1, p2, ...))\<close> and \<^verbatim>\<open>s.endswith(p)\<close>.\<close>

definition startswith :: "string \<Rightarrow> string \<Rightarrow> bool" where
  "startswith s p = (take (length p) s = p)"

definition startswith_any :: "string \<Rightarrow> string list \<Rightarrow> bool" where
  "startswith_any s ps = list_ex (startswith s) ps"

definition endswith :: "string \<Rightarrow> string \<Rightarrow> bool" where
  "endswith s p = (length p \<le> length s \<and> drop (length s - length p) s = p)"

text \<open>\<^verbatim>\<open>sub in s\<close> for two strings: \<open>sub\<close> occurs in \<open>s\<close> as a contiguous piece.\<close>

fun contains :: "string \<Rightarrow> string \<Rightarrow> bool" where
  "contains [] sub = (sub = [])"
| "contains (c # cs) sub = (startswith (c # cs) sub \<or> contains cs sub)"

text \<open>
  What a call can do: return a value, raise an exception that derives from
  \<^verbatim>\<open>Exception\<close> (carried as its text \<^verbatim>\<open>str(e)\<close>), or leave the module through
  \<^verbatim>\<open>AnsibleModule.fail_json\<close> / \<^verbatim>\<open>exit_json\<close>. Both of these emit their keyword
  arguments as the module's result and raise \<^verbatim>\<open>SystemExit\<close>, which derives from
  \<^verbatim>\<open>BaseException\<close> only: an \<^verbatim>\<open>except Exception\<close> clause does not catch it.
\<close>

datatype module_exit = FailJson "(string \<times> pyval) list" | ExitJson "(string \<times> pyval) list"

datatype 'a outcome = Returns 'a | Raises string | Exits module_exit

text \<open>The \<^verbatim>\<open>TypeError\<close>s and \<^verbatim>\<open>KeyError\<close> the interpreter itself raises in this module.\<close>

datatype interp_error = NotIterable pyval | NotSubscriptable pyval | StrIndex | KeyErr string

section \<open>The pattern \<^verbatim>\<open>ipv4_re\<close>\<close>

text \<open>
  Regular expressions without iteration, which is all \<^verbatim>\<open>ipv4_re\<close> uses.
  \<open>rmatch r s\<close> lists, in backtracking order, what is left of \<open>s\<close> after each way of
  matching \<open>r\<close> at its start; \<^verbatim>\<open>re.match(r, s)\<close> is truthy when there is one.
  \<open>Eol\<close> is \<^verbatim>\<open>$\<close> (the end, or just before a final newline), \<open>Ahead\<close> is \<^verbatim>\<open>(?=...)\<close>.
\<close>

datatype regex =
    Eps
  | Lit char
  | Range char char
  | Seq regex regex
  | Alt regex regex
  | Opt regex
  | Eol
  | Ahead regex

fun rmatch :: "regex \<Rightarrow> string \<Rightarrow> string list" where
  "rmatch Eps s = [s]"
| "rmatch (Lit c) s = (case s of [] \<Rightarrow> [] | x # xs \<Rightarrow> if x = c then [xs] else [])"
| "rmatch (Range a b) s =
     (case s of
        [] \<Rightarrow> []
      | x # xs \<Rightarrow>
          if (of_char a :: nat) \<le> of_char x \<and> (of_char x :: nat) \<le> of_char b then [xs] else [])"
| "rmatch (Seq r1 r2) s = concat (map (rmatch r2) (rmatch r1 s))"
| "rmatch (Alt r1 r2) s = rmatch r1 s @ rmatch r2 s"
| "rmatch (Opt r) s = rmatch r s @ [s]"
| "rmatch Eol s = (if s = [] \<or> s = [CHR 0x0A] then [s] else [])"
| "rmatch (Ahead r) s = (if rmatch r s = [] then [] else [s])"

definition re_match :: "regex \<Rightarrow> string \<Rightarrow> bool" where
  "re_match r s = (rmatch r s \<noteq> [])"

text \<open>\<^verbatim>\<open>r{n}\<close> and \<^verbatim>\<open>r{0,n}\<close>.\<close>

fun times :: "nat \<Rightarrow> regex \<Rightarrow> regex" where
  "times 0 r = Eps"
| "times (Suc n) r = Seq r (times n r)"

fun upto_times :: "nat \<Rightarrow> regex \<Rightarrow> regex" where
  "upto_times 0 r = Eps"
| "upto_times (Suc n) r = Opt (Seq r (upto_times n r))"

definition digit :: regex where
  "digit = Range CHR ''0'' CHR ''9''"

text \<open>\<^verbatim>\<open>(?:25[0-5]|2[0-4]\d|[0-1]?\d?\d)\<close>\<close>

definition octet :: regex where
  "octet =
     Alt (Seq (Lit CHR ''2'') (Seq (Lit CHR ''5'') (Range CHR ''0'' CHR ''5'')))
    (Alt (Seq (Lit CHR ''2'') (Seq (Range CHR ''0'' CHR ''4'') digit))
         (Seq (Opt (Range CHR ''0'' CHR ''1'')) (Seq (Opt digit) digit)))"

text \<open>
  \<^verbatim>\<open>(?:25[0-5]|2[0-4]\d|[0-1]?\d?\d)(?:\.(?:25[0-5]|2[0-4]\d|[0-1]?\d?\d)){3}(?=$|(?::(\d{2,5})))\<close>
\<close>

definition ipv4_re :: regex where
  "ipv4_re =
     Seq octet
    (Seq (times 3 (Seq (Lit CHR ''.'') octet))
         (Ahead (Alt Eol (Seq (Lit CHR '':'') (Seq (times 2 digit) (upto_times 3 digit))))))"

definition schemes :: "string list" where
  "schemes = [''ftp'', ''http'', ''https'']"

text \<open>\<^verbatim>\<open>str(schemes)\<close>\<close>

definition str_schemes :: string where
  "str_schemes = ''['ftp', 'http', 'https']''"

section \<open>The session, the requests and the collaborators\<close>

text \<open>The two attributes of the iDRAC handle that the module reads or writes.\<close>

record idrac =
  ServerGeneration :: string
  use_redfish :: bool

text \<open>The fields of \<^verbatim>\<open>urlparse\<close>'s result that the module reads.\<close>

record parse_result =
  scheme :: string
  netloc :: string
  path :: string

text \<open>The keyword arguments of \<^verbatim>\<open>idrac.update_mgr.update_from_repo_url\<close>, as the module passes them.\<close>

record url_request =
  rq_ipaddress :: string
  rq_share_type :: string
  rq_share_name :: string
  rq_share_user :: "string option"
  rq_share_pwd :: "string option"
  rq_catalog_file :: string
  rq_apply_update :: bool
  rq_reboot_needed :: bool
  rq_job_wait :: bool

text \<open>
  The handle \<^verbatim>\<open>FileOnShare(remote=share_name, isFolder=True)\<close> with the credentials added
  and the catalog file resolved in it, given by what it was built from.
\<close>

record catalog_path =
  fs_remote :: string
  fs_isFolder :: bool
  fs_user :: "string option"
  fs_pwd :: "string option"
  fs_file :: string

text \<open>The keyword arguments of \<^verbatim>\<open>idrac.update_mgr.update_from_repo\<close>.\<close>

record nw_request =
  nw_catalog_path :: catalog_path
  nw_apply_update :: bool
  nw_reboot_needed :: bool
  nw_job_wait :: bool

text \<open>
  The calls made on the SDK, in order, each with the session it was made on and, for the
  two update calls, what came back (\<open>Inl\<close> the text of a raised exception).
\<close>

datatype call =
    FileOnShare catalog_path
  | UpdateFromRepoUrl idrac url_request "string + pyval"
  | UpdateFromRepo idrac nw_request "string + pyval"

text \<open>\<^verbatim>\<open>module.params\<close>, with the keys of \<^verbatim>\<open>argument_spec\<close>.\<close>

record module_params =
  idrac_ip :: string
  idrac_user :: string
  idrac_pwd :: string
  idrac_port :: int
  share_name :: string
  share_user :: "string option"
  share_pwd :: "string option"
  share_mnt :: "string option"
  catalog_file_name :: string
  apply_update :: bool
  reboot :: bool
  job_wait :: bool
  ignore_cert_warning :: bool

text \<open>
  Everything the module calls and does not define: the URL parser of the standard library
  (which may raise, and whose result is tested for truth: \<open>None\<close> stands for a falsy
  result), the SDK's share handle (\<open>Some e\<close>: building it raises \<open>e\<close>), the SDK's two update
  calls, the connection helper, the text of the interpreter's own exceptions, and the
  flag \<^verbatim>\<open>HAS_OMSDK\<close>.
\<close>

record env =
  urlparse :: "string \<Rightarrow> string + parse_result option"
  file_on_share :: "catalog_path \<Rightarrow> string option"
  update_from_repo_url :: "idrac \<Rightarrow> url_request \<Rightarrow> string + pyval"
  update_from_repo :: "idrac \<Rightarrow> nw_request \<Rightarrow> string + pyval"
  exc_text :: "interp_error \<Rightarrow> string"
  HAS_OMSDK :: bool
  connect :: "module_params \<Rightarrow> idrac outcome"
  disconnect :: "idrac \<Rightarrow> string option"

text \<open>The dictionary \<^verbatim>\<open>msg\<close> of \<^verbatim>\<open>update_fw_from_repo\<close>.\<close>

record msg_dict =
  changed :: bool
  failed :: bool
  msg :: pyval

section \<open>The module's functions\<close>

definition call_result :: "string + pyval \<Rightarrow> pyval outcome" where
  "call_result r = (case r of Inl e \<Rightarrow> Raises e | Inr v \<Rightarrow> Returns v)"

text \<open>
  \<^verbatim>\<open>update_fw_from_url\<close>. The parameter \<open>icw\<close> is \<^verbatim>\<open>ignore_cert_warning\<close>: the function
  takes it and does not use it.
\<close>

definition update_fw_from_url ::
  "env \<Rightarrow> idrac \<Rightarrow> string \<Rightarrow> string option \<Rightarrow> string option \<Rightarrow> string \<Rightarrow>
   bool \<Rightarrow> bool \<Rightarrow> bool \<Rightarrow> bool \<Rightarrow> pyval outcome \<times> call list" where
  "update_fw_from_url E i sname suser spwd catalog applyu rboot jwait icw =
     (case urlparse E sname of
        Inl e \<Rightarrow> (Raises e, [])
      | Inr None \<Rightarrow> (Returns (PStr (''Invalid url: '' @ sname)), [])
      | Inr (Some p) \<Rightarrow>
          if scheme p \<notin> set schemes then
            (Returns (PStr (''Invalid url: '' @ sname @ ''. '' @
                            (''URL scheme must be one of '' @ str_schemes))), [])
          else if \<not> (netloc p \<noteq> [] \<and> re_match ipv4_re (netloc p)) then
            (Returns (PStr (''Invalid url: '' @ sname @ ''. '' @
                            ''URL netloc must be a valid IPv4 or IPv6 address.'')), [])
          else
            let pth = (if path p = [] then path p @ ''/'' else path p);
                rq = \<lparr>rq_ipaddress = netloc p, rq_share_type = scheme p,
                      rq_share_name = pth, rq_share_user = suser, rq_share_pwd = spwd,
                      rq_catalog_file = catalog, rq_apply_update = applyu,
                      rq_reboot_needed = rboot, rq_job_wait = jwait\<rparr>;
                r = update_from_repo_url E i rq
            in (call_result r, [UpdateFromRepoUrl i rq r]))"

text \<open>\<^verbatim>\<open>update_fw_from_nw_share\<close>\<close>

definition update_fw_from_nw_share ::
  "env \<Rightarrow> idrac \<Rightarrow> string \<Rightarrow> string option \<Rightarrow> string option \<Rightarrow> string \<Rightarrow>
   bool \<Rightarrow> bool \<Rightarrow> bool \<Rightarrow> pyval outcome \<times> call list" where
  "update_fw_from_nw_share E i sname suser spwd catalog applyu rboot jwait =
     (let cp = \<lparr>fs_remote = sname, fs_isFolder = True, fs_user = suser, fs_pwd = spwd,
                fs_file = catalog\<rparr>
      in case file_on_share E cp of
           Some e \<Rightarrow> (Raises e, [FileOnShare cp])
         | None \<Rightarrow>
             let rq = \<lparr>nw_catalog_path = cp, nw_apply_update = applyu,
                       nw_reboot_needed = rboot, nw_job_wait = jwait\<rparr>;
                 r = update_from_repo E i rq
             in (call_result r, [FileOnShare cp, UpdateFromRepo i rq r]))"

text \<open>\<^verbatim>\<open>"Status" in v\<close> and \<^verbatim>\<open>v["Status"]\<close> for the values \<^verbatim>\<open>msg['msg']\<close> can hold.\<close>

fun py_in :: "string \<Rightarrow> pyval \<Rightarrow> interp_error + bool" where
  "py_in k (PDict d) = Inr (k \<in> fst ` set d)"
| "py_in k (PStr s) = Inr (contains s k)"
| "py_in k v = Inl (NotIterable v)"

fun py_getitem :: "pyval \<Rightarrow> string \<Rightarrow> interp_error + pyval" where
  "py_getitem (PDict d) k = (case map_of d k of Some v \<Rightarrow> Inr v | None \<Rightarrow> Inl (KeyErr k))"
| "py_getitem (PStr s) k = Inl StrIndex"
| "py_getitem v k = Inl (NotSubscriptable v)"

text \<open>
  Lines 335 to 341 of \<^verbatim>\<open>update_fw_from_repo\<close>: the status of \<^verbatim>\<open>msg['msg']\<close> decides
  \<^verbatim>\<open>changed\<close> and \<^verbatim>\<open>failed\<close>.
\<close>

definition interpret_status :: "env \<Rightarrow> msg_dict \<Rightarrow> unit outcome \<times> msg_dict" where
  "interpret_status E m =
     (case py_in ''Status'' (msg m) of
        Inl x \<Rightarrow> (Raises (exc_text E x), m)
      | Inr False \<Rightarrow> (Returns (), m\<lparr>failed := True\<rparr>)
      | Inr True \<Rightarrow>
          (case py_getitem (msg m) ''Status'' of
             Inl x \<Rightarrow> (Raises (exc_text E x), m)
           | Inr v \<Rightarrow>
               if v = PStr ''Success'' then (Returns (), m\<lparr>changed := True\<rparr>)
               else (Returns (), m\<lparr>failed := True\<rparr>)))"

text \<open>Python's truth value of an optional string: \<^verbatim>\<open>None\<close> and \<^verbatim>\<open>''\<close> are false.\<close>

definition truthy :: "string option \<Rightarrow> bool" where
  "truthy x = (case x of None \<Rightarrow> False | Some s \<Rightarrow> s \<noteq> [])"

definition catalog_error :: "string \<Rightarrow> module_exit" where
  "catalog_error c =
     FailJson [(''msg'', PStr (''Invalid catalog file: '' @ c @
                 ''. Must end with '.xml' or '.XML' extension''))]"

definition share_mnt_error :: module_exit where
  "share_mnt_error =
     FailJson [(''msg'', PStr (''Error: 'share_mnt' is a mandatory argument for Redfish '' @
                 ''based firmware update using Server Configuration Profile (SCP)''))]"

text \<open>
  After a helper has run: its value goes to \<^verbatim>\<open>msg['msg']\<close> and the status is read; an
  exception leaves \<^verbatim>\<open>msg\<close> as it was.
\<close>

definition after_update ::
  "env \<Rightarrow> msg_dict \<Rightarrow> idrac \<Rightarrow> pyval outcome \<times> call list \<Rightarrow>
   unit outcome \<times> msg_dict \<times> idrac \<times> call list" where
  "after_update E m i rc =
     (case fst rc of
        Returns v \<Rightarrow> (case interpret_status E (m\<lparr>msg := v\<rparr>) of (out, m') \<Rightarrow> (out, m', i, snd rc))
      | Raises e \<Rightarrow> (Raises e, m, i, snd rc)
      | Exits x \<Rightarrow> (Exits x, m, i, snd rc))"

text \<open>
  Lines 311 to 313: a session whose server generation mentions 12 or 13 leaves Redfish.
\<close>

definition generation_fix :: "idrac \<Rightarrow> idrac" where
  "generation_fix i =
     (if list_ex (contains (ServerGeneration i)) [''12'', ''13'']
      then i\<lparr>use_redfish := False\<rparr> else i)"

text \<open>
  The body of the \<^verbatim>\<open>try\<close> statement of \<^verbatim>\<open>update_fw_from_repo\<close> (lines 298 to 341),
  run on the dictionary \<open>m\<close> and the session \<open>i\<close>; it gives how the body ended, the
  dictionary and the session as they are then, and the SDK calls made.
\<close>

definition try_body ::
  "env \<Rightarrow> idrac \<Rightarrow> module_params \<Rightarrow> msg_dict \<Rightarrow>
   unit outcome \<times> msg_dict \<times> idrac \<times> call list" where
  "try_body E i module m =
     (if \<not> endswith (lower (catalog_file_name module)) ''.xml'' then
        (Exits (catalog_error (catalog_file_name module)), m, i, [])
      else
        let i1 = generation_fix i
        in if startswith_any (lower (share_name module)) [''http://'', ''https://'', ''ftp://'']
           then
             let i2 = i1\<lparr>use_redfish := False\<rparr>
             in after_update E m i2
                  (update_fw_from_url E i2 (share_name module) (share_user module)
                     (share_pwd module) (catalog_file_name module) (apply_update module)
                     (reboot module) (job_wait module) (ignore_cert_warning module))
           else if use_redfish i1 \<and> \<not> truthy (share_mnt module) then
             (Exits share_mnt_error, m, i1, [])
           else
             after_update E m i1
               (update_fw_from_nw_share E i1 (share_name module) (share_user module)
                  (share_pwd module) (catalog_file_name module) (apply_update module)
                  (reboot module) (job_wait module)))"

text \<open>Lines 291 to 294: the dictionary \<^verbatim>\<open>msg\<close> before the \<^verbatim>\<open>try\<close> statement.\<close>

definition msg0 :: msg_dict where
  "msg0 = \<lparr>changed = False, failed = False, msg = PDict []\<rparr>"

text \<open>
  \<^verbatim>\<open>update_fw_from_repo\<close>: the pair \<^verbatim>\<open>(msg, err)\<close>, the session and the calls made.
  \<^verbatim>\<open>except Exception\<close> catches what \<open>Raises\<close> stands for, and nothing else.
\<close>

definition update_fw_from_repo ::
  "env \<Rightarrow> idrac \<Rightarrow> module_params \<Rightarrow> (msg_dict \<times> bool) outcome \<times> idrac \<times> call list" where
  "update_fw_from_repo E i module =
     (case try_body E i module msg0 of
        (Returns u, m, i', cs) \<Rightarrow> (Returns (m, False), i', cs)
      | (Raises e, m, i', cs) \<Rightarrow>
          (Returns (m\<lparr>msg := PStr (''Error: '' @ e), failed := True\<rparr>, True), i', cs)
      | (Exits x, m, i', cs) \<Rightarrow> (Exits x, i', cs))"

text \<open>\<^verbatim>\<open>**msg\<close>\<close>

definition kwargs :: "msg_dict \<Rightarrow> (string \<times> pyval) list" where
  "kwargs m = [(''changed'', PBool (changed m)), (''failed'', PBool (failed m)), (''msg'', msg m)]"

text \<open>
  \<^verbatim>\<open>main\<close>, after the parameters have been parsed. It never returns: it ends in
  \<^verbatim>\<open>exit_json\<close> or \<^verbatim>\<open>fail_json\<close>, or in an exception of the connection helper.
\<close>

definition main :: "env \<Rightarrow> module_params \<Rightarrow> unit outcome \<times> call list" where
  "main E module =
     (if \<not> HAS_OMSDK E then
        (Exits (FailJson [(''msg'',
           PStr ''Dell EMC OpenManage Python SDK required for this module'')]), [])
      else
        case connect E module of
          Raises e \<Rightarrow> (Raises e, [])
        | Exits x \<Rightarrow> (Exits x, [])
        | Returns i \<Rightarrow>
            (case update_fw_from_repo E i module of
               (Raises e, i', cs) \<Rightarrow> (Raises e, cs)
             | (Exits x, i', cs) \<Rightarrow> (Exits x, cs)
             | (Returns (m, err), i', cs) \<Rightarrow>
                 (case disconnect E i' of
                    Some e \<Rightarrow> (Raises e, cs)
                  | None \<Rightarrow>
                      if err then (Exits (FailJson (kwargs m)), cs)
                      else (Exits (ExitJson (kwargs m)), cs))))"

section \<open>Reading the calls, and the words of the specification\<close>

text \<open>What the update calls of a run answered, in order.\<close>

fun response :: "call \<Rightarrow> (string + pyval) list" where
  "response (FileOnShare cp) = []"
| "response (UpdateFromRepoUrl j rq r) = [r]"
| "response (UpdateFromRepo j rq r) = [r]"

definition responses :: "call list \<Rightarrow> (string + pyval) list" where
  "responses cs = concat (map response cs)"

text \<open>The sessions on which the update calls of a run were made.\<close>

fun call_session :: "call \<Rightarrow> idrac list" where
  "call_session (FileOnShare cp) = []"
| "call_session (UpdateFromRepoUrl j rq r) = [j]"
| "call_session (UpdateFromRepo j rq r) = [j]"

text \<open>
  The specification's "strict IPv4 dotted-quad pattern (four 0-255 octets, optional
  trailing port)", written from its words and not from \<open>ipv4_re\<close>: four decimal numbers
  of one to three digits, each at most 255, separated by dots, and then nothing, or a
  colon and a port made of digits.
\<close>

definition is_digit :: "char \<Rightarrow> bool" where
  "is_digit c = (c \<in> set ''0123456789'')"

definition decimal :: "string \<Rightarrow> nat" where
  "decimal s = foldl (\<lambda>n c. 10 * n + (of_char c - 48)) 0 s"

definition is_octet :: "string \<Rightarrow> bool" where
  "is_octet s = (s \<noteq> [] \<and> length s \<le> 3 \<and> list_all is_digit s \<and> decimal s \<le> 255)"

fun split_on :: "char \<Rightarrow> string \<Rightarrow> string list" where
  "split_on c [] = [[]]"
| "split_on c (x # xs) =
     (if x = c then [] # split_on c xs
      else case split_on c xs of [] \<Rightarrow> [[x]] | h # t \<Rightarrow> (x # h) # t)"

definition dotted_quad :: "string \<Rightarrow> bool" where
  "dotted_quad s = (length (split_on CHR ''.'' s) = 4 \<and> list_all is_octet (split_on CHR ''.'' s))"

definition spec_ipv4_with_port :: "string \<Rightarrow> bool" where
  "spec_ipv4_with_port s =
     (case split_on CHR '':'' s of
        [h] \<Rightarrow> dotted_quad h
      | [h, p] \<Rightarrow> dotted_quad h \<and> p \<noteq> [] \<and> list_all is_digit p
      | _ \<Rightarrow> False)"

text \<open>
  Collaborators for the examples: the parser answers \<open>u\<close>, building the share handle
  succeeds, both update calls answer \<open>r\<close>, and connecting gives a Redfish session on a
  14th-generation server.
\<close>

definition example_exc_text :: "interp_error \<Rightarrow> string" where
  "example_exc_text x =
     (case x of
        NotIterable v \<Rightarrow> ''argument is not iterable''
      | NotSubscriptable v \<Rightarrow> ''object is not subscriptable''
      | StrIndex \<Rightarrow> ''string indices must be integers''
      | KeyErr k \<Rightarrow> k)"

definition example_env :: "string + parse_result option \<Rightarrow> string + pyval \<Rightarrow> env" where
  "example_env u r =
     \<lparr>urlparse = (\<lambda>s. u), file_on_share = (\<lambda>cp. None),
      update_from_repo_url = (\<lambda>i rq. r), update_from_repo = (\<lambda>i rq. r),
      exc_text = example_exc_text, HAS_OMSDK = True,
      connect = (\<lambda>p. Returns \<lparr>ServerGeneration = ''14G Monolithic'', use_redfish = True\<rparr>),
      disconnect = (\<lambda>i. None)\<rparr>"

text \<open>Parameters with the defaults of \<^verbatim>\<open>argument_spec\<close>, for a share, a catalog and a mount point.\<close>

definition example_params :: "string \<Rightarrow> string \<Rightarrow> string option \<Rightarrow> module_params" where
  "example_params sname catalog mnt =
     \<lparr>idrac_ip = ''192.168.1.1'', idrac_user = ''root'', idrac_pwd = ''calvin'',
      idrac_port = 443, share_name = sname, share_user = None, share_pwd = None,
      share_mnt = mnt, catalog_file_name = catalog, apply_update = True, reboot = False,
      job_wait = True, ignore_cert_warning = True\<rparr>"

text \<open>
  Values for the examples: a Redfish session on a 14th-generation server, two job
  records as the SDK returns them, what \<^verbatim>\<open>urlparse\<close> gives for
  \<^verbatim>\<open>http://192.168.10.10\<close>, and what it gives for \<^verbatim>\<open>http://1.2.3.4:80abc/repo\<close>.
\<close>

definition example_session :: idrac where
  "example_session = \<lparr>ServerGeneration = ''14G Monolithic'', use_redfish = True\<rparr>"

definition job_success :: "(string \<times> pyval) list" where
  "job_success = [(''JobStatus'', PStr ''Completed''), (''Status'', PStr ''Success'')]"

definition job_failed :: "(string \<times> pyval) list" where
  "job_failed = [(''JobStatus'', PStr ''Failed''), (''Status'', PStr ''Failed'')]"

definition parsed_root :: parse_result where
  "parsed_root = \<lparr>scheme = ''http'', netloc = ''192.168.10.10'', path = ''''\<rparr>"

definition parsed_bad_port :: parse_result where
  "parsed_bad_port = \<lparr>scheme = ''http'', netloc = ''1.2.3.4:80abc'', path = ''/repo''\<rparr>"

section \<open>Lemmas about the strings and the runs\<close>

subsection \<open>Prefixes, suffixes and pieces of strings\<close>

lemma startswith_iff: "startswith s p \<longleftrightarrow> (\<exists>b. s = p @ b)"
  unfolding startswith_def
  by (metis append_eq_conv_conj append_take_drop_id)

lemma contains_iff: "contains s sub \<longleftrightarrow> (\<exists>a b. s = a @ sub @ b)"
proof (induction s)
  case Nil show ?case by auto
next
  case (Cons c cs)
  have "(\<exists>a b. c # cs = a @ sub @ b) \<longleftrightarrow> (\<exists>b. c # cs = sub @ b) \<or> (\<exists>a b. cs = a @ sub @ b)"
    by (auto simp: Cons_eq_append_conv) 
  with Cons show ?case by (simp add: startswith_iff)
qed

lemma endswith_iff: "endswith s p \<longleftrightarrow> (\<exists>a. s = a @ p)"
  unfolding endswith_def
  by (metis append_eq_conv_conj append_take_drop_id diff_add_inverse2 length_append le_add2 length_drop)

subsection \<open>The helpers, the status and the body of the try statement\<close>

lemma url_response:
  "x \<in> set (responses (snd (update_fw_from_url E i s u p c a r j w))) \<Longrightarrow>
   fst (update_fw_from_url E i s u p c a r j w) = call_result x"
  by (auto simp: update_fw_from_url_def responses_def Let_def split: sum.splits option.splits if_splits)

lemma nw_response:
  "x \<in> set (responses (snd (update_fw_from_nw_share E i s u p c a r j))) \<Longrightarrow>
   fst (update_fw_from_nw_share E i s u p c a r j) = call_result x"
  by (auto simp: update_fw_from_nw_share_def responses_def Let_def split: option.splits)

lemma url_never_exits: "fst (update_fw_from_url E i s u p c a r j w) \<noteq> Exits x"
  by (auto simp: update_fw_from_url_def call_result_def Let_def split: sum.splits option.splits if_splits)

lemma nw_never_exits: "fst (update_fw_from_nw_share E i s u p c a r j) \<noteq> Exits x"
  by (auto simp: update_fw_from_nw_share_def call_result_def Let_def split: sum.splits option.splits)

lemma after_update_calls: "snd (snd (snd (after_update E m i rc))) = snd rc"
  by (auto simp: after_update_def split: outcome.splits prod.splits)

lemma after_update_session: "fst (snd (snd (after_update E m i rc))) = i"
  by (auto simp: after_update_def split: outcome.splits prod.splits)

lemma after_update_Returns:
  "fst rc = Returns v \<Longrightarrow>
   after_update E m i rc =
     (fst (interpret_status E (m\<lparr>msg := v\<rparr>)), snd (interpret_status E (m\<lparr>msg := v\<rparr>)), i, snd rc)"
  by (simp add: after_update_def split: prod.splits)

lemma after_update_Raises:
  "fst rc = Raises e \<Longrightarrow> after_update E m i rc = (Raises e, m, i, snd rc)"
  by (simp add: after_update_def)

lemma after_update_response:
  assumes "fst rc = call_result x"
  shows "after_update E m i rc =
     (case x of
        Inl e \<Rightarrow> (Raises e, m, i, snd rc)
      | Inr v \<Rightarrow> (fst (interpret_status E (m\<lparr>msg := v\<rparr>)),
                  snd (interpret_status E (m\<lparr>msg := v\<rparr>)), i, snd rc))"
  using assms
  by (cases x) (simp_all add: call_result_def after_update_Returns after_update_Raises)

lemma try_body_response:
  assumes "x \<in> set (responses (snd (snd (snd (try_body E i module m)))))"
  shows "fst (try_body E i module m) =
           (case x of Inl e \<Rightarrow> Raises e | Inr v \<Rightarrow> fst (interpret_status E (m\<lparr>msg := v\<rparr>)))
       \<and> fst (snd (try_body E i module m)) =
           (case x of Inl e \<Rightarrow> m | Inr v \<Rightarrow> snd (interpret_status E (m\<lparr>msg := v\<rparr>)))"
proof (cases "endswith (lower (catalog_file_name module)) ''.xml''")
  case False
  with assms show ?thesis by (simp add: try_body_def responses_def)
next
  case cat: True
  show ?thesis
  proof (cases "startswith_any (lower (share_name module)) [''http://'', ''https://'', ''ftp://'']")
    case True
    with cat assms have "x \<in> set (responses (snd (update_fw_from_url E ((generation_fix i)\<lparr>use_redfish := False\<rparr>) (share_name module) (share_user module)
                     (share_pwd module) (catalog_file_name module) (apply_update module)
                     (reboot module) (job_wait module) (ignore_cert_warning module))))"
      by (simp add: try_body_def Let_def after_update_calls)
    from url_response[OF this] cat True show ?thesis
      by (simp add: try_body_def Let_def after_update_response split: sum.splits)
  next
    case nw: False
    show ?thesis
    proof (cases "use_redfish (generation_fix i) \<and> \<not> truthy (share_mnt module)")
      case True
      with cat nw assms show ?thesis by (simp add: try_body_def Let_def responses_def)
    next
      case False
      with cat nw assms have "x \<in> set (responses (snd (update_fw_from_nw_share E (generation_fix i) (share_name module) (share_user module)
                     (share_pwd module) (catalog_file_name module) (apply_update module)
                     (reboot module) (job_wait module))))"
        by (simp add: try_body_def Let_def after_update_calls)
      from nw_response[OF this] cat nw False show ?thesis
        by (auto simp: try_body_def Let_def after_update_response split: sum.splits)
    qed
  qed
qed

lemma interpret_status_dict:
  "interpret_status E (m\<lparr>msg := PDict d\<rparr>) =
     (Returns (),
      if map_of d ''Status'' = Some (PStr ''Success'') then m\<lparr>msg := PDict d, changed := True\<rparr>
      else m\<lparr>msg := PDict d, failed := True\<rparr>)"
  by (auto simp: interpret_status_def map_of_eq_None_iff[symmetric] simp del: map_of_eq_None_iff split: sum.splits bool.splits option.splits)

lemma repo_calls:
  "snd (snd (update_fw_from_repo E i module)) = snd (snd (snd (try_body E i module msg0)))"
  by (simp add: update_fw_from_repo_def split: prod.splits outcome.splits)

lemma repo_response_dict:
  assumes "Inr (PDict d) \<in> set (responses (snd (snd (update_fw_from_repo E i module))))"
  shows "fst (update_fw_from_repo E i module) =
           Returns (\<lparr>changed = (map_of d ''Status'' = Some (PStr ''Success'')),
                     failed = (map_of d ''Status'' \<noteq> Some (PStr ''Success'')),
                     msg = PDict d\<rparr>, False)"
proof -
  from assms have "Inr (PDict d) \<in> set (responses (snd (snd (snd (try_body E i module msg0)))))"
    by (simp add: repo_calls)
  from try_body_response[OF this]
  have "fst (try_body E i module msg0) = Returns ()"
    and "fst (snd (try_body E i module msg0)) =
           (if map_of d ''Status'' = Some (PStr ''Success'')
            then msg0\<lparr>msg := PDict d, changed := True\<rparr>
            else msg0\<lparr>msg := PDict d, failed := True\<rparr>)"
    by (simp_all add: interpret_status_dict)
  then show ?thesis
    by (cases "try_body E i module msg0") (auto simp: update_fw_from_repo_def msg0_def)
qed

lemma interpret_status_Raises:
  "interpret_status E m = (Raises e, m') \<Longrightarrow> changed m' = changed m \<and> failed m' = failed m"
  by (auto simp: interpret_status_def split: sum.splits bool.splits if_splits)

lemma after_update_Raises_flags:
  "after_update E m i rc = (Raises e, m', i', cs) \<Longrightarrow>
   changed m' = changed m \<and> failed m' = failed m"
  by (auto simp: after_update_def split: outcome.splits prod.splits dest: interpret_status_Raises)

lemma try_body_Raises_flags:
  "try_body E i module m = (Raises e, m', i', cs) \<Longrightarrow>
   changed m' = changed m \<and> failed m' = failed m"
  by (auto simp: try_body_def Let_def split: if_splits dest: after_update_Raises_flags)

lemma repo_never_raises: "fst (update_fw_from_repo E i module) \<noteq> Raises e"
  by (cases "try_body E i module msg0")
     (auto simp: update_fw_from_repo_def split: outcome.splits)

lemma repo_caught:
  assumes "try_body E i module msg0 = (Raises e, m, i', cs)"
  shows "update_fw_from_repo E i module =
           (Returns (\<lparr>changed = False, failed = True, msg = PStr (''Error: '' @ e)\<rparr>, True),
            i', cs)"
proof -
  from try_body_Raises_flags[OF assms] have "changed m = False"
    by (simp add: msg0_def)
  then have "m\<lparr>msg := PStr (''Error: '' @ e), failed := True\<rparr> =
             \<lparr>changed = False, failed = True, msg = PStr (''Error: '' @ e)\<rparr>"
    by (cases m) simp
  with assms show ?thesis by (simp add: update_fw_from_repo_def)
qed

lemma repo_response_raised:
  assumes "Inl e \<in> set (responses (snd (snd (update_fw_from_repo E i module))))"
  shows "fst (update_fw_from_repo E i module) =
           Returns (\<lparr>changed = False, failed = True, msg = PStr (''Error: '' @ e)\<rparr>, True)"
proof -
  from assms have "Inl e \<in> set (responses (snd (snd (snd (try_body E i module msg0)))))"
    by (simp add: repo_calls)
  from try_body_response[OF this] have "fst (try_body E i module msg0) = Raises e"
    by simp
  then obtain m i' cs where "try_body E i module msg0 = (Raises e, m, i', cs)"
    by (cases "try_body E i module msg0") auto
  from repo_caught[OF this] show ?thesis by simp
qed

lemma ends_in_xml_iff:
  "endswith (lower c) ''.xml'' \<longleftrightarrow> (\<exists>pre suf. c = pre @ suf \<and> lower suf = ''.xml'')"
proof
  assume "endswith (lower c) ''.xml''"
  then obtain a where a: "lower c = a @ ''.xml''" by (auto simp: endswith_iff)
  then have "c = take (length a) c @ drop (length a) c \<and> lower (drop (length a) c) = ''.xml''"
    unfolding lower_def by (metis append_eq_conv_conj append_take_drop_id drop_map)
  then show "\<exists>pre suf. c = pre @ suf \<and> lower suf = ''.xml''" by blast
next
  assume "\<exists>pre suf. c = pre @ suf \<and> lower suf = ''.xml''"
  then show "endswith (lower c) ''.xml''" by (auto simp: endswith_iff lower_def)
qed

lemma catalog_error_neq: "catalog_error c \<noteq> share_mnt_error"
  by (simp add: catalog_error_def share_mnt_error_def)

lemma after_update_never_exits:
  "fst rc \<noteq> Exits x \<Longrightarrow> fst (after_update E m i rc) \<noteq> Exits x"
  by (auto simp: after_update_def interpret_status_def split: outcome.splits prod.splits sum.splits bool.splits if_splits)

lemma after_url_never_exits:
  "fst (after_update E m i (update_fw_from_url E' i' s u p c a r j w)) \<noteq> Exits x"
  by (rule after_update_never_exits) (rule url_never_exits)

lemma after_nw_never_exits:
  "fst (after_update E m i (update_fw_from_nw_share E' i' s u p c a r j)) \<noteq> Exits x"
  by (rule after_update_never_exits) (rule nw_never_exits)

lemma try_body_catalog_ok:
  assumes "endswith (lower (catalog_file_name module)) ''.xml''"
  shows "fst (try_body E i module m) \<noteq> Exits (catalog_error c)"
  using assms
  by (simp add: try_body_def Let_def catalog_error_neq[symmetric] after_url_never_exits
      after_nw_never_exits)

lemma repo_outcome_Exits:
  "fst (update_fw_from_repo E i module) = Exits x \<longleftrightarrow> fst (try_body E i module msg0) = Exits x"
  by (cases "try_body E i module msg0")
     (auto simp: update_fw_from_repo_def split: outcome.splits)

lemma try_body_Exits_cases:
  "fst (try_body E i module m) = Exits x \<Longrightarrow>
   x = catalog_error (catalog_file_name module) \<or> x = share_mnt_error"
  by (auto simp: try_body_def Let_def after_url_never_exits after_nw_never_exits
      split: if_splits)

lemma repo_outcome_cases:
  "(\<exists>m err. fst (update_fw_from_repo E i module) = Returns (m, err))
   \<or> fst (update_fw_from_repo E i module) = Exits (catalog_error (catalog_file_name module))
   \<or> fst (update_fw_from_repo E i module) = Exits share_mnt_error"
proof (cases "fst (update_fw_from_repo E i module)")
  case (Returns p)
  then show ?thesis by (cases p) simp
next
  case (Raises e)
  then show ?thesis by (simp add: repo_never_raises)
next
  case (Exits x)
  then have "fst (try_body E i module msg0) = Exits x"
    by (simp add: repo_outcome_Exits)
  from try_body_Exits_cases[OF this] Exits show ?thesis by auto
qed

lemma url_prefix_iff:
  "startswith_any (lower s) [''http://'', ''https://'', ''ftp://''] \<longleftrightarrow>
   (\<exists>pre rest. s = pre @ rest \<and> lower pre \<in> {''http://'', ''https://'', ''ftp://''})"
proof
  assume "startswith_any (lower s) [''http://'', ''https://'', ''ftp://'']"
  then obtain p where p: "p \<in> set [''http://'', ''https://'', ''ftp://'']"
      "take (length p) (lower s) = p"
    unfolding startswith_any_def list_ex_iff startswith_def by blast
  have "s = take (length p) s @ drop (length p) s" by simp
  moreover from p(2) have "lower (take (length p) s) = p"
    by (simp add: lower_def take_map)
  moreover from p(1) have "p \<in> {''http://'', ''https://'', ''ftp://''}" by simp
  ultimately show "\<exists>pre rest. s = pre @ rest \<and> lower pre \<in> {''http://'', ''https://'', ''ftp://''}"
    by metis
next
  assume "\<exists>pre rest. s = pre @ rest \<and> lower pre \<in> {''http://'', ''https://'', ''ftp://''}"
  then obtain pre rest where "s = pre @ rest" "lower pre \<in> {''http://'', ''https://'', ''ftp://''}"
    by blast
  then have "lower s = lower pre @ lower rest" "lower pre \<in> set [''http://'', ''https://'', ''ftp://'']"
    by (simp_all add: lower_def)
  then show "startswith_any (lower s) [''http://'', ''https://'', ''ftp://'']"
    unfolding startswith_any_def list_ex_iff startswith_iff by metis
qed

lemma try_body_calls:
  "snd (snd (snd (try_body E i module m))) =
     (if \<not> endswith (lower (catalog_file_name module)) ''.xml'' then []
      else if startswith_any (lower (share_name module)) [''http://'', ''https://'', ''ftp://'']
      then snd (update_fw_from_url E ((generation_fix i)\<lparr>use_redfish := False\<rparr>)
                  (share_name module) (share_user module) (share_pwd module)
                  (catalog_file_name module) (apply_update module) (reboot module)
                  (job_wait module) (ignore_cert_warning module))
      else if use_redfish (generation_fix i) \<and> \<not> truthy (share_mnt module) then []
      else snd (update_fw_from_nw_share E (generation_fix i)
                  (share_name module) (share_user module) (share_pwd module)
                  (catalog_file_name module) (apply_update module) (reboot module)
                  (job_wait module)))"
  by (simp add: try_body_def Let_def after_update_calls)

lemma url_calls:
  "c \<in> set (snd (update_fw_from_url E i s u p ca a r j w)) \<Longrightarrow>
   \<exists>rq x. c = UpdateFromRepoUrl i rq x"
  by (auto simp: update_fw_from_url_def Let_def split: sum.splits option.splits if_splits)

lemma nw_calls:
  "snd (update_fw_from_nw_share E i s u p ca a r j) =
     FileOnShare \<lparr>fs_remote = s, fs_isFolder = True, fs_user = u, fs_pwd = p, fs_file = ca\<rparr> #
     tl (snd (update_fw_from_nw_share E i s u p ca a r j))"
  by (auto simp: update_fw_from_nw_share_def Let_def split: option.splits)

lemma nw_calls_kind:
  "c \<in> set (snd (update_fw_from_nw_share E i s u p ca a r j)) \<Longrightarrow>
   (\<exists>cp. c = FileOnShare cp) \<or> (\<exists>rq x. c = UpdateFromRepo i rq x)"
  by (auto simp: update_fw_from_nw_share_def Let_def split: option.splits)

lemma try_body_mount_exit:
  "endswith (lower (catalog_file_name module)) ''.xml'' \<Longrightarrow>
   \<not> startswith_any (lower (share_name module)) [''http://'', ''https://'', ''ftp://''] \<Longrightarrow>
   fst (try_body E i module m) = Exits share_mnt_error \<longleftrightarrow>
     use_redfish (generation_fix i) \<and> \<not> truthy (share_mnt module)"
  by (simp add: try_body_def Let_def after_nw_never_exits)

lemma generation_fix_legacy:
  "(\<exists>a b. ServerGeneration i = a @ ''12'' @ b \<or> ServerGeneration i = a @ ''13'' @ b) \<Longrightarrow>
   \<not> use_redfish (generation_fix i)"
  by (auto simp: generation_fix_def contains_iff)

lemma try_body_session:
  "fst (snd (snd (try_body E i module m))) =
     (if \<not> endswith (lower (catalog_file_name module)) ''.xml'' then i
      else if startswith_any (lower (share_name module)) [''http://'', ''https://'', ''ftp://'']
      then (generation_fix i)\<lparr>use_redfish := False\<rparr>
      else generation_fix i)"
  by (simp add: try_body_def Let_def after_update_session)

lemma repo_session:
  "fst (snd (update_fw_from_repo E i module)) = fst (snd (snd (try_body E i module msg0)))"
  by (simp add: update_fw_from_repo_def split: prod.splits outcome.splits)

lemma truthy_iff: "truthy x \<longleftrightarrow> (\<exists>s. x = Some s \<and> s \<noteq> [])"
  by (cases x) (simp_all add: truthy_def)

lemma try_body_mount_missing:
  "endswith (lower (catalog_file_name module)) ''.xml'' \<Longrightarrow>
   \<not> startswith_any (lower (share_name module)) [''http://'', ''https://'', ''ftp://''] \<Longrightarrow>
   use_redfish (generation_fix i) \<Longrightarrow> \<not> truthy (share_mnt module) \<Longrightarrow>
   try_body E i module m = (Exits share_mnt_error, m, generation_fix i, [])"
  by (simp add: try_body_def Let_def)

lemma try_body_ignore_cert_warning:
  "try_body E i (module\<lparr>ignore_cert_warning := b\<rparr>) m =
   try_body E i (module\<lparr>ignore_cert_warning := b'\<rparr>) m"
  by (simp add: try_body_def Let_def update_fw_from_url_def)

lemma repo_err_iff:
  "fst (update_fw_from_repo E i module) = Returns (m, err) \<Longrightarrow>
   err \<longleftrightarrow> (\<exists>e. fst (try_body E i module msg0) = Raises e)"
  by (cases "try_body E i module msg0")
     (auto simp: update_fw_from_repo_def split: outcome.splits)

lemma main_reports:
  assumes "HAS_OMSDK E" "connect E module = Returns i"
    and "update_fw_from_repo E i module = (Returns (m, err), i', cs)"
    and "disconnect E i' = None"
  shows "main E module =
           (if err then (Exits (FailJson (kwargs m)), cs) else (Exits (ExitJson (kwargs m)), cs))"
  using assms by (simp add: main_def)

lemma url_rejected_no_call:
  assumes "urlparse E sname = Inr (Some p)"
    and "scheme p \<notin> set schemes \<or> netloc p = [] \<or> \<not> re_match ipv4_re (netloc p)"
  shows "\<exists>t. update_fw_from_url E i sname suser spwd catalog applyu rboot jwait icw =
               (Returns (PStr (''Invalid url: '' @ sname @ ''. '' @ t)), [])"
  using assms by (auto simp: update_fw_from_url_def)

subsection \<open>Example runs\<close>

lemmas string_defs = endswith_def lower_def lower_char_def startswith_any_def startswith_def
lemmas regex_defs = re_match_def ipv4_re_def octet_def digit_def numeral_3_eq_3 numeral_2_eq_2
lemmas run_defs = update_fw_from_repo_def try_body_def after_update_def interpret_status_def
  update_fw_from_url_def update_fw_from_nw_share_def generation_fix_def msg0_def
  call_result_def truthy_def schemes_def Let_def
lemmas example_defs = example_env_def example_params_def example_session_def job_success_def
  job_failed_def parsed_root_def example_exc_text_def

lemma example_url_success:
  "update_fw_from_repo (example_env (Inr (Some parsed_root)) (Inr (PDict job_success))) example_session
     (example_params ''http://192.168.10.10'' ''Catalog.xml'' None) =
   (Returns (\<lparr>changed = True, failed = False, msg = PDict job_success\<rparr>, False),
    \<lparr>ServerGeneration = ''14G Monolithic'', use_redfish = False\<rparr>,
    [UpdateFromRepoUrl \<lparr>ServerGeneration = ''14G Monolithic'', use_redfish = False\<rparr>
       \<lparr>rq_ipaddress = ''192.168.10.10'', rq_share_type = ''http'', rq_share_name = ''/'',
        rq_share_user = None, rq_share_pwd = None, rq_catalog_file = ''Catalog.xml'',
        rq_apply_update = True, rq_reboot_needed = False, rq_job_wait = True\<rparr>
       (Inr (PDict job_success))])"
  by (simp add: run_defs example_defs string_defs regex_defs)

lemma example_url_failed:
  "update_fw_from_repo (example_env (Inr (Some parsed_root)) (Inr (PDict job_failed))) example_session
     (example_params ''http://192.168.10.10'' ''Catalog.xml'' None) =
   (Returns (\<lparr>changed = False, failed = True, msg = PDict job_failed\<rparr>, False),
    \<lparr>ServerGeneration = ''14G Monolithic'', use_redfish = False\<rparr>,
    [UpdateFromRepoUrl \<lparr>ServerGeneration = ''14G Monolithic'', use_redfish = False\<rparr>
       \<lparr>rq_ipaddress = ''192.168.10.10'', rq_share_type = ''http'', rq_share_name = ''/'',
        rq_share_user = None, rq_share_pwd = None, rq_catalog_file = ''Catalog.xml'',
        rq_apply_update = True, rq_reboot_needed = False, rq_job_wait = True\<rparr>
       (Inr (PDict job_failed))])"
  by (simp add: run_defs example_defs string_defs regex_defs)

lemma example_url_raises:
  "try_body (example_env (Inr (Some parsed_root)) (Inl ''timed out'')) example_session
     (example_params ''http://192.168.10.10'' ''Catalog.xml'' None) msg0 =
   (Raises ''timed out'', msg0,
    \<lparr>ServerGeneration = ''14G Monolithic'', use_redfish = False\<rparr>,
    [UpdateFromRepoUrl \<lparr>ServerGeneration = ''14G Monolithic'', use_redfish = False\<rparr>
       \<lparr>rq_ipaddress = ''192.168.10.10'', rq_share_type = ''http'', rq_share_name = ''/'',
        rq_share_user = None, rq_share_pwd = None, rq_catalog_file = ''Catalog.xml'',
        rq_apply_update = True, rq_reboot_needed = False, rq_job_wait = True\<rparr>
       (Inl ''timed out'')])"
  by (simp add: run_defs example_defs string_defs regex_defs)

lemma example_nfs_legacy:
  "update_fw_from_repo (example_env (Inl ''unused'') (Inr (PDict job_success)))
     \<lparr>ServerGeneration = ''13G Monolithic'', use_redfish = True\<rparr>
     (example_params ''192.168.10.10:/share'' ''Catalog.xml'' None) =
   (Returns (\<lparr>changed = True, failed = False, msg = PDict job_success\<rparr>, False),
    \<lparr>ServerGeneration = ''13G Monolithic'', use_redfish = False\<rparr>,
    [FileOnShare \<lparr>fs_remote = ''192.168.10.10:/share'', fs_isFolder = True, fs_user = None,
                  fs_pwd = None, fs_file = ''Catalog.xml''\<rparr>,
     UpdateFromRepo \<lparr>ServerGeneration = ''13G Monolithic'', use_redfish = False\<rparr>
       \<lparr>nw_catalog_path = \<lparr>fs_remote = ''192.168.10.10:/share'', fs_isFolder = True,
                            fs_user = None, fs_pwd = None, fs_file = ''Catalog.xml''\<rparr>,
        nw_apply_update = True, nw_reboot_needed = False, nw_job_wait = True\<rparr>
       (Inr (PDict job_success))])"
  by (simp add: run_defs example_defs string_defs regex_defs)

lemma example_nfs_empty_mount:
  "update_fw_from_repo (example_env (Inl ''unused'') (Inr (PDict job_success))) example_session
     (example_params ''192.168.10.10:/share'' ''Catalog.xml'' (Some '''')) =
   (Exits share_mnt_error, example_session, [])"
  by (simp add: run_defs example_defs string_defs regex_defs)

lemma catalog_txt_not_xml:
  "\<not> (\<exists>pre suf. catalog_file_name (example_params s ''Catalog.txt'' mnt) = pre @ suf
        \<and> lower suf = ''.xml'')"
  unfolding ends_in_xml_iff[symmetric] by (simp add: example_params_def string_defs)

lemma catalog_xml_upper:
  "\<exists>pre suf. catalog_file_name (example_params s ''Catalog.XML'' mnt) = pre @ suf
        \<and> lower suf = ''.xml''"
  unfolding ends_in_xml_iff[symmetric] by (simp add: example_params_def string_defs)

lemma catalog_xml_lower:
  "\<exists>pre suf. catalog_file_name (example_params s ''Catalog.xml'' mnt) = pre @ suf
        \<and> lower suf = ''.xml''"
  unfolding ends_in_xml_iff[symmetric] by (simp add: example_params_def string_defs)


lemma example_nfs_prefix:
  "\<not> (\<exists>pre rest. share_name (example_params ''192.168.10.10:/share'' c mnt) = pre @ rest
      \<and> lower pre \<in> {''http://'', ''https://'', ''ftp://''})"
  unfolding url_prefix_iff[symmetric] by (simp add: example_params_def string_defs)

lemma example_params_sel:
  "share_name (example_params s c mnt) = s"
  "share_user (example_params s c mnt) = None"
  "share_pwd (example_params s c mnt) = None"
  "share_mnt (example_params s c mnt) = mnt"
  "catalog_file_name (example_params s c mnt) = c"
  by (simp_all add: example_params_def)

lemma legacy_13:
  "\<exists>a b. ServerGeneration \<lparr>ServerGeneration = ''13G Monolithic'', use_redfish = True\<rparr> = a @ ''12'' @ b
       \<or> ServerGeneration \<lparr>ServerGeneration = ''13G Monolithic'', use_redfish = True\<rparr> = a @ ''13'' @ b"
proof -
  have "ServerGeneration \<lparr>ServerGeneration = ''13G Monolithic'', use_redfish = True\<rparr> =
        [] @ ''13'' @ ''G Monolithic''" by simp
  then show ?thesis by blast
qed

lemma example_nfs_redfish:
  "update_fw_from_repo (example_env (Inl ''unused'') (Inr (PDict job_success))) example_session
     (example_params ''192.168.10.10:/share'' ''Catalog.xml'' (Some ''/mnt/share'')) =
   (Returns (\<lparr>changed = True, failed = False, msg = PDict job_success\<rparr>, False),
    example_session,
    [FileOnShare \<lparr>fs_remote = ''192.168.10.10:/share'', fs_isFolder = True, fs_user = None,
                  fs_pwd = None, fs_file = ''Catalog.xml''\<rparr>,
     UpdateFromRepo example_session
       \<lparr>nw_catalog_path = \<lparr>fs_remote = ''192.168.10.10:/share'', fs_isFolder = True,
                            fs_user = None, fs_pwd = None, fs_file = ''Catalog.xml''\<rparr>,
        nw_apply_update = True, nw_reboot_needed = False, nw_job_wait = True\<rparr>
       (Inr (PDict job_success))])"
  by (simp add: run_defs example_defs string_defs regex_defs)

lemma example_session_redfish: "use_redfish (generation_fix example_session)"
  by (simp add: generation_fix_def example_session_def startswith_def)

lemma invalid_url_mentioning_Status:
  "update_fw_from_repo
     (example_env (Inr (Some \<lparr>scheme = ''http'', netloc = ''updates'', path = ''/Status''\<rparr>))
        (Inr (PDict job_success)))
     example_session (example_params ''http://updates/Status'' ''Catalog.xml'' None) =
   (Returns (\<lparr>changed = False, failed = True,
              msg = PStr ''Error: string indices must be integers''\<rparr>, True),
    \<lparr>ServerGeneration = ''14G Monolithic'', use_redfish = False\<rparr>, [])"
  by (simp add: run_defs example_defs string_defs regex_defs)

lemma invalid_url_hostname:
  "update_fw_from_repo
     (example_env (Inr (Some \<lparr>scheme = ''http'', netloc = ''my-hostname'', path = ''/share''\<rparr>))
        (Inr (PDict job_success)))
     example_session (example_params ''http://my-hostname/share'' ''Catalog.xml'' None) =
   (Returns (\<lparr>changed = False, failed = True,
              msg = PStr (''Invalid url: http://my-hostname/share. '' @
                          ''URL netloc must be a valid IPv4 or IPv6 address.'')\<rparr>, False),
    \<lparr>ServerGeneration = ''14G Monolithic'', use_redfish = False\<rparr>, [])"
  by (simp add: run_defs example_defs string_defs regex_defs)

section \<open>The claims\<close>

text \<open>
  \<^bold>\<open>C1.\<close> Whenever an update call of a run of \<^verbatim>\<open>update_fw_from_repo\<close> answered with a
  dictionary \<open>d\<close>, the function returns \<^verbatim>\<open>(msg, False)\<close> with \<^verbatim>\<open>msg['msg']\<close> that
  dictionary, and: if \<open>d\<close> has \<^verbatim>\<open>Status\<close> equal to \<^verbatim>\<open>"Success"\<close> then \<open>changed\<close> is
  true and \<open>failed\<close> is false; if it has \<^verbatim>\<open>Status\<close> with any other value then \<open>changed\<close>
  is false and \<open>failed\<close> is true; if it has no \<^verbatim>\<open>Status\<close> then \<open>failed\<close> is true and
  \<open>changed\<close> is false. In each case exactly one of the two flags is true.
\<close>

theorem c1_status_decides_outcome:
  assumes run: "update_fw_from_repo E i module = (out, i', cs)"
    and resp: "Inr (PDict d) \<in> set (responses cs)"
  shows "\<exists>m. out = Returns (m, False) \<and> msg m = PDict d
           \<and> (map_of d ''Status'' = Some (PStr ''Success'') \<longrightarrow> changed m \<and> \<not> failed m)
           \<and> (\<forall>v. map_of d ''Status'' = Some v \<and> v \<noteq> PStr ''Success'' \<longrightarrow>
                  \<not> changed m \<and> failed m)
           \<and> (map_of d ''Status'' = None \<longrightarrow> failed m \<and> \<not> changed m)
           \<and> changed m \<noteq> failed m"
proof -
  from run resp
  have "Inr (PDict d) \<in> set (responses (snd (snd (update_fw_from_repo E i module))))"
    by simp
  from repo_response_dict[OF this] run show ?thesis by auto
qed

theorem c1_status_decides_outcome_witness:
  "Inr (PDict job_success) \<in> set (responses (snd (snd
      (update_fw_from_repo (example_env (Inr (Some parsed_root)) (Inr (PDict job_success)))
         example_session (example_params ''http://192.168.10.10'' ''Catalog.xml'' None)))))
   \<and> map_of job_success ''Status'' = Some (PStr ''Success'')
   \<and> (\<exists>m. fst (update_fw_from_repo (example_env (Inr (Some parsed_root)) (Inr (PDict job_success)))
               example_session (example_params ''http://192.168.10.10'' ''Catalog.xml'' None))
             = Returns (m, False)
          \<and> changed m \<and> \<not> failed m)"
proof -
  note run = example_url_success
  have resp: "Inr (PDict job_success)
      \<in> set (responses [UpdateFromRepoUrl \<lparr>ServerGeneration = ''14G Monolithic'', use_redfish = False\<rparr>
       \<lparr>rq_ipaddress = ''192.168.10.10'', rq_share_type = ''http'', rq_share_name = ''/'',
        rq_share_user = None, rq_share_pwd = None, rq_catalog_file = ''Catalog.xml'',
        rq_apply_update = True, rq_reboot_needed = False, rq_job_wait = True\<rparr>
       (Inr (PDict job_success))])"
    by (simp add: responses_def)
  have st: "map_of job_success ''Status'' = Some (PStr ''Success'')"
    by (simp add: job_success_def)
  from c1_status_decides_outcome[OF run resp] st
  have "\<exists>m. Returns (\<lparr>changed = True, failed = False, msg = PDict job_success\<rparr>, False)
             = Returns (m, False) \<and> changed m \<and> \<not> failed m"
    by blast
  with resp st show ?thesis by (simp add: run)
qed

text \<open>
  \<^bold>\<open>C2\<close> (amended). Every exception deriving from \<^verbatim>\<open>Exception\<close> that is raised inside
  the \<^verbatim>\<open>try\<close> statement of \<^verbatim>\<open>update_fw_from_repo\<close> (by the URL parser, by the SDK's
  share handle, by an update call, or by the interpreter when it reads the status) is
  caught: the function returns \<^verbatim>\<open>(msg, True)\<close> with \<open>failed\<close> true, \<open>changed\<close> false and
  \<^verbatim>\<open>msg['msg']\<close> the string \<^verbatim>\<open>"Error: "\<close> followed by the exception's text. In
  particular this is so when an update call raised. No such exception leaves
  \<^verbatim>\<open>update_fw_from_repo\<close>: the caller receives a pair \<^verbatim>\<open>(msg, err)\<close> unless the run
  leaves through \<^verbatim>\<open>fail_json\<close> at the catalog-name check or at the mount-point check.
\<close>

theorem c2_exceptions_are_caught:
  "(\<forall>e m i' cs. try_body E i module msg0 = (Raises e, m, i', cs) \<longrightarrow>
      update_fw_from_repo E i module =
        (Returns (\<lparr>changed = False, failed = True, msg = PStr (''Error: '' @ e)\<rparr>, True),
         i', cs))
   \<and> (\<forall>e out i' cs. update_fw_from_repo E i module = (out, i', cs)
          \<and> Inl e \<in> set (responses cs) \<longrightarrow>
        out = Returns (\<lparr>changed = False, failed = True, msg = PStr (''Error: '' @ e)\<rparr>, True))
   \<and> (\<forall>e. fst (update_fw_from_repo E i module) \<noteq> Raises e)
   \<and> ((\<exists>m err. fst (update_fw_from_repo E i module) = Returns (m, err))
      \<or> fst (update_fw_from_repo E i module) = Exits (catalog_error (catalog_file_name module))
      \<or> fst (update_fw_from_repo E i module) = Exits share_mnt_error)"
proof (intro conjI allI impI)
  fix e m i' cs
  assume "try_body E i module msg0 = (Raises e, m, i', cs)"
  then show "update_fw_from_repo E i module =
        (Returns (\<lparr>changed = False, failed = True, msg = PStr (''Error: '' @ e)\<rparr>, True),
         i', cs)"
    by (rule repo_caught)
next
  fix e out i' cs
  assume a: "update_fw_from_repo E i module = (out, i', cs) \<and> Inl e \<in> set (responses cs)"
  then have "Inl e \<in> set (responses (snd (snd (update_fw_from_repo E i module))))" by simp
  from repo_response_raised[OF this] a
  show "out = Returns (\<lparr>changed = False, failed = True, msg = PStr (''Error: '' @ e)\<rparr>, True)"
    by simp
next
  fix e show "fst (update_fw_from_repo E i module) \<noteq> Raises e" by (rule repo_never_raises)
next
  show "(\<exists>m err. fst (update_fw_from_repo E i module) = Returns (m, err))
      \<or> fst (update_fw_from_repo E i module) = Exits (catalog_error (catalog_file_name module))
      \<or> fst (update_fw_from_repo E i module) = Exits share_mnt_error"
    by (rule repo_outcome_cases)
qed

theorem c2_exceptions_are_caught_witness:
  "try_body (example_env (Inr (Some parsed_root)) (Inl ''timed out'')) example_session
     (example_params ''http://192.168.10.10'' ''Catalog.xml'' None) msg0 =
   (Raises ''timed out'', msg0,
    \<lparr>ServerGeneration = ''14G Monolithic'', use_redfish = False\<rparr>,
    [UpdateFromRepoUrl \<lparr>ServerGeneration = ''14G Monolithic'', use_redfish = False\<rparr>
       \<lparr>rq_ipaddress = ''192.168.10.10'', rq_share_type = ''http'', rq_share_name = ''/'',
        rq_share_user = None, rq_share_pwd = None, rq_catalog_file = ''Catalog.xml'',
        rq_apply_update = True, rq_reboot_needed = False, rq_job_wait = True\<rparr>
       (Inl ''timed out'')])
   \<and> fst (update_fw_from_repo (example_env (Inr (Some parsed_root)) (Inl ''timed out''))
          example_session (example_params ''http://192.168.10.10'' ''Catalog.xml'' None)) =
     Returns (\<lparr>changed = False, failed = True, msg = PStr ''Error: timed out''\<rparr>, True)"
  using c2_exceptions_are_caught[of "example_env (Inr (Some parsed_root)) (Inl ''timed out'')"
      example_session "example_params ''http://192.168.10.10'' ''Catalog.xml'' None"]
    example_url_raises
  by simp

text \<open>
  The claim as stated has the caller always receive a result. \<^verbatim>\<open>fail_json\<close> raises
  \<^verbatim>\<open>SystemExit\<close>, which \<^verbatim>\<open>except Exception\<close> does not catch: on a Redfish session, a
  network share without \<^verbatim>\<open>share_mnt\<close> makes \<^verbatim>\<open>update_fw_from_repo\<close> leave through
  \<^verbatim>\<open>fail_json\<close>, and nothing is returned to \<^verbatim>\<open>main\<close>.
\<close>

theorem c2_fail_json_is_not_caught_counterexample:
  "update_fw_from_repo (example_env (Inl ''unused'') (Inr (PDict job_success))) example_session
     (example_params ''192.168.10.10:/share'' ''Catalog.xml'' None) =
   (Exits share_mnt_error, example_session, [])
   \<and> main (example_env (Inl ''unused'') (Inr (PDict job_success)))
       (example_params ''192.168.10.10:/share'' ''Catalog.xml'' None) =
     (Exits share_mnt_error, [])"
  by (simp add: main_def run_defs example_defs string_defs)

text \<open>
  \<^bold>\<open>C3.\<close> If \<^verbatim>\<open>catalog_file_name\<close> does not end in \<^verbatim>\<open>.xml\<close>, compared without regard to
  case, \<^verbatim>\<open>update_fw_from_repo\<close> leaves through \<^verbatim>\<open>fail_json\<close> with the catalog-name
  message, the session untouched and no SDK call made. If it does end in \<^verbatim>\<open>.xml\<close>
  (so also \<^verbatim>\<open>.XML\<close>), the run does not end in a catalog-name failure.
\<close>

theorem c3_catalog_name_checked_first:
  "(\<not> (\<exists>pre suf. catalog_file_name module = pre @ suf \<and> lower suf = ''.xml'') \<longrightarrow>
      update_fw_from_repo E i module = (Exits (catalog_error (catalog_file_name module)), i, []))
   \<and> ((\<exists>pre suf. catalog_file_name module = pre @ suf \<and> lower suf = ''.xml'') \<longrightarrow>
      (\<forall>c. fst (update_fw_from_repo E i module) \<noteq> Exits (catalog_error c)))"
proof (intro conjI impI)
  assume "\<not> (\<exists>pre suf. catalog_file_name module = pre @ suf \<and> lower suf = ''.xml'')"
  then have "\<not> endswith (lower (catalog_file_name module)) ''.xml''"
    by (simp add: ends_in_xml_iff)
  then show "update_fw_from_repo E i module =
               (Exits (catalog_error (catalog_file_name module)), i, [])"
    by (simp add: update_fw_from_repo_def try_body_def)
next
  assume "\<exists>pre suf. catalog_file_name module = pre @ suf \<and> lower suf = ''.xml''"
  then have "endswith (lower (catalog_file_name module)) ''.xml''"
    by (simp add: ends_in_xml_iff)
  then show "\<forall>c. fst (update_fw_from_repo E i module) \<noteq> Exits (catalog_error c)"
    by (simp add: repo_outcome_Exits try_body_catalog_ok)
qed

theorem c3_catalog_name_checked_first_witness:
  "update_fw_from_repo (example_env (Inr (Some parsed_root)) (Inr (PDict job_success))) example_session
     (example_params ''http://192.168.10.10'' ''Catalog.txt'' None) =
   (Exits (catalog_error ''Catalog.txt''), example_session, [])
   \<and> fst (update_fw_from_repo (example_env (Inr (Some parsed_root)) (Inr (PDict job_success)))
          example_session (example_params ''http://192.168.10.10'' ''Catalog.XML'' None)) \<noteq>
     Exits (catalog_error ''Catalog.XML'')"
proof -
  from c3_catalog_name_checked_first[of "example_params ''http://192.168.10.10'' ''Catalog.txt'' None"
      "example_env (Inr (Some parsed_root)) (Inr (PDict job_success))" example_session]
    catalog_txt_not_xml
  have a: "update_fw_from_repo (example_env (Inr (Some parsed_root)) (Inr (PDict job_success))) example_session
     (example_params ''http://192.168.10.10'' ''Catalog.txt'' None) =
   (Exits (catalog_error ''Catalog.txt''), example_session, [])"
    by (simp add: example_params_def)
  from c3_catalog_name_checked_first[of "example_params ''http://192.168.10.10'' ''Catalog.XML'' None"
      "example_env (Inr (Some parsed_root)) (Inr (PDict job_success))" example_session]
    catalog_xml_upper
  have b: "fst (update_fw_from_repo (example_env (Inr (Some parsed_root)) (Inr (PDict job_success)))
          example_session (example_params ''http://192.168.10.10'' ''Catalog.XML'' None)) \<noteq>
     Exits (catalog_error ''Catalog.XML'')"
    by blast
  from a b show ?thesis by simp
qed

text \<open>
  \<^bold>\<open>C4.\<close> The claim: a URL whose host is not a strict IPv4 dotted quad with an optional
  port is rejected and no update call is made. The code does reject a scheme outside
  \<open>schemes\<close>, an empty host and a host on which \<open>ipv4_re\<close> finds nothing
  (\<open>url_rejected_no_call\<close>, \<open>invalid_url_hostname\<close>). But \<^verbatim>\<open>re.match\<close> only looks at
  the start of the host, and the look-ahead of \<open>ipv4_re\<close> asks for two digits after the
  colon and nothing about what follows them. For the URL
  \<^verbatim>\<open>http://1.2.3.4:80abc/repo\<close>, whose host is \<^verbatim>\<open>1.2.3.4:80abc\<close>, the host is not an
  IPv4 address with a port, and \<^verbatim>\<open>update_fw_from_url\<close> calls
  \<^verbatim>\<open>update_from_repo_url\<close> with it.
\<close>

theorem c4_text_after_port_reaches_update:
  "\<not> spec_ipv4_with_port (netloc parsed_bad_port)
   \<and> update_fw_from_url (example_env (Inr (Some parsed_bad_port)) (Inr (PDict job_success)))
       example_session ''http://1.2.3.4:80abc/repo'' None None ''Catalog.xml''
       True False True True =
     (Returns (PDict job_success),
      [UpdateFromRepoUrl example_session
         \<lparr>rq_ipaddress = ''1.2.3.4:80abc'', rq_share_type = ''http'', rq_share_name = ''/repo'',
          rq_share_user = None, rq_share_pwd = None, rq_catalog_file = ''Catalog.xml'',
          rq_apply_update = True, rq_reboot_needed = False, rq_job_wait = True\<rparr>
         (Inr (PDict job_success))])"
  by (simp add: spec_ipv4_with_port_def dotted_quad_def is_octet_def is_digit_def decimal_def
      parsed_bad_port_def update_fw_from_url_def example_env_def schemes_def call_result_def
      regex_defs)



text \<open>
  \<^bold>\<open>C6.\<close> If the session's server generation contains \<^verbatim>\<open>12\<close> or \<^verbatim>\<open>13\<close>, every update
  call of the run is made on a session whose \<^verbatim>\<open>use_redfish\<close> is false; every
  \<^verbatim>\<open>update_from_repo_url\<close> call is made on a session whose \<^verbatim>\<open>use_redfish\<close> is false,
  whatever the flag was at the start; and once the catalog name has passed its check,
  a legacy generation or a URL locator leaves \<^verbatim>\<open>use_redfish\<close> false in the session.
\<close>

theorem c6_redfish_forced_off:
  assumes run: "update_fw_from_repo E i module = (out, i', cs)"
  shows "((\<exists>a b. ServerGeneration i = a @ ''12'' @ b \<or> ServerGeneration i = a @ ''13'' @ b) \<longrightarrow>
            (\<forall>c \<in> set cs. \<forall>j \<in> set (call_session c). \<not> use_redfish j))
       \<and> (\<forall>j rq r. UpdateFromRepoUrl j rq r \<in> set cs \<longrightarrow> \<not> use_redfish j)
       \<and> ((\<exists>pre suf. catalog_file_name module = pre @ suf \<and> lower suf = ''.xml'')
            \<and> ((\<exists>a b. ServerGeneration i = a @ ''12'' @ b \<or> ServerGeneration i = a @ ''13'' @ b)
               \<or> (\<exists>pre rest. share_name module = pre @ rest
                     \<and> lower pre \<in> {''http://'', ''https://'', ''ftp://''})) \<longrightarrow>
            \<not> use_redfish i')"
proof -
  from run have cs: "cs = snd (snd (snd (try_body E i module msg0)))"
    using repo_calls[of E i module] by simp
  from run have i': "i' = fst (snd (snd (try_body E i module msg0)))"
    using repo_session[of E i module] by simp
  have a: "\<not> use_redfish (generation_fix i) \<Longrightarrow> c \<in> set cs \<Longrightarrow>
           j \<in> set (call_session c) \<Longrightarrow> \<not> use_redfish j" for c j
    unfolding cs try_body_calls
    by (auto split: if_splits dest!: url_calls nw_calls_kind)
  have b: "UpdateFromRepoUrl j rq r \<in> set cs \<Longrightarrow> \<not> use_redfish j" for j rq r
    unfolding cs try_body_calls
    by (auto split: if_splits dest!: url_calls nw_calls_kind)
  have c: "endswith (lower (catalog_file_name module)) ''.xml'' \<Longrightarrow>
           \<not> use_redfish (generation_fix i)
           \<or> startswith_any (lower (share_name module)) [''http://'', ''https://'', ''ftp://''] \<Longrightarrow>
           \<not> use_redfish i'"
    unfolding i' try_body_session by auto
  from a b c generation_fix_legacy[of i] ends_in_xml_iff[of "catalog_file_name module"]
    url_prefix_iff[of "share_name module"]
  show ?thesis by blast
qed

theorem c6_redfish_forced_off_witness:
  "list_all (\<lambda>c. list_all (\<lambda>j. \<not> use_redfish j) (call_session c))
      (snd (snd (update_fw_from_repo (example_env (Inl ''unused'') (Inr (PDict job_success)))
         \<lparr>ServerGeneration = ''13G Monolithic'', use_redfish = True\<rparr>
         (example_params ''192.168.10.10:/share'' ''Catalog.xml'' None))))
   \<and> length (snd (snd (update_fw_from_repo (example_env (Inl ''unused'') (Inr (PDict job_success)))
         \<lparr>ServerGeneration = ''13G Monolithic'', use_redfish = True\<rparr>
         (example_params ''192.168.10.10:/share'' ''Catalog.xml'' None)))) = 2
   \<and> UpdateFromRepoUrl \<lparr>ServerGeneration = ''14G Monolithic'', use_redfish = False\<rparr>
       \<lparr>rq_ipaddress = ''192.168.10.10'', rq_share_type = ''http'', rq_share_name = ''/'',
        rq_share_user = None, rq_share_pwd = None, rq_catalog_file = ''Catalog.xml'',
        rq_apply_update = True, rq_reboot_needed = False, rq_job_wait = True\<rparr>
       (Inr (PDict job_success))
     \<in> set (snd (snd (update_fw_from_repo (example_env (Inr (Some parsed_root)) (Inr (PDict job_success)))
        example_session (example_params ''http://192.168.10.10'' ''Catalog.xml'' None))))
   \<and> use_redfish example_session
   \<and> \<not> use_redfish (fst (snd (update_fw_from_repo
         (example_env (Inl ''unused'') (Inr (PDict job_success)))
         \<lparr>ServerGeneration = ''13G Monolithic'', use_redfish = True\<rparr>
         (example_params ''192.168.10.10:/share'' ''Catalog.xml'' None))))"
proof -
  let ?n = "update_fw_from_repo (example_env (Inl ''unused'') (Inr (PDict job_success)))
         \<lparr>ServerGeneration = ''13G Monolithic'', use_redfish = True\<rparr>
         (example_params ''192.168.10.10:/share'' ''Catalog.xml'' None)"
  have n: "?n = (fst ?n, fst (snd ?n), snd (snd ?n))" by simp
  from c6_redfish_forced_off[OF n] legacy_13
  have a: "list_all (\<lambda>c. list_all (\<lambda>j. \<not> use_redfish j) (call_session c)) (snd (snd ?n))"
    unfolding list_all_iff by blast
  have a': "length (snd (snd ?n)) = 2" by (simp add: example_nfs_legacy)
  from c6_redfish_forced_off[OF n] legacy_13
    catalog_xml_lower[of "''192.168.10.10:/share''" None]
  have c: "\<not> use_redfish (fst (snd ?n))"
    by blast
  have b: "use_redfish example_session" by (simp add: example_session_def)
  from a a' b c show ?thesis by (simp add: example_url_success)
qed

text \<open>
  \<^bold>\<open>C7\<close> (amended). With a catalog name that passes the check and a locator that is not
  a URL: if \<^verbatim>\<open>use_redfish\<close> is true after the generation check and \<^verbatim>\<open>share_mnt\<close> is
  absent or the empty string, the run leaves through \<^verbatim>\<open>fail_json\<close> with the
  mount-point message and no SDK call; if \<^verbatim>\<open>use_redfish\<close> is false or \<^verbatim>\<open>share_mnt\<close> is a
  non-empty string, the run does not end in that failure and makes the calls of
  \<^verbatim>\<open>update_fw_from_nw_share\<close>, starting with the share handle.
\<close>

theorem c7_mount_point_required_for_redfish:
  assumes cat: "\<exists>pre suf. catalog_file_name module = pre @ suf \<and> lower suf = ''.xml''"
    and nw: "\<not> (\<exists>pre rest. share_name module = pre @ rest
                 \<and> lower pre \<in> {''http://'', ''https://'', ''ftp://''})"
  shows "(use_redfish (generation_fix i)
            \<and> (share_mnt module = None \<or> share_mnt module = Some []) \<longrightarrow>
          update_fw_from_repo E i module = (Exits share_mnt_error, generation_fix i, []))
       \<and> (\<not> use_redfish (generation_fix i) \<or> (\<exists>s. share_mnt module = Some s \<and> s \<noteq> []) \<longrightarrow>
          fst (update_fw_from_repo E i module) \<noteq> Exits share_mnt_error
          \<and> snd (snd (update_fw_from_repo E i module)) =
              snd (update_fw_from_nw_share E (generation_fix i)
                     (share_name module) (share_user module) (share_pwd module)
                     (catalog_file_name module) (apply_update module) (reboot module)
                     (job_wait module))
          \<and> (\<exists>rest. snd (snd (update_fw_from_repo E i module)) =
                 FileOnShare \<lparr>fs_remote = share_name module, fs_isFolder = True,
                              fs_user = share_user module, fs_pwd = share_pwd module,
                              fs_file = catalog_file_name module\<rparr> # rest))"
proof (intro conjI impI)
  from cat have c: "endswith (lower (catalog_file_name module)) ''.xml''"
    by (simp add: ends_in_xml_iff)
  from nw have u: "\<not> startswith_any (lower (share_name module)) [''http://'', ''https://'', ''ftp://'']"
    using url_prefix_iff[of "share_name module"] by blast
  {
    assume "use_redfish (generation_fix i)
            \<and> (share_mnt module = None \<or> share_mnt module = Some [])"
    then have "use_redfish (generation_fix i)" "\<not> truthy (share_mnt module)"
      by (auto simp: truthy_def)
    from try_body_mount_missing[OF c u this]
    show "update_fw_from_repo E i module = (Exits share_mnt_error, generation_fix i, [])"
      by (simp add: update_fw_from_repo_def)
  }
  {
    assume "\<not> use_redfish (generation_fix i) \<or> (\<exists>s. share_mnt module = Some s \<and> s \<noteq> [])"
    then have ok: "\<not> (use_redfish (generation_fix i) \<and> \<not> truthy (share_mnt module))"
      by (auto simp: truthy_iff)
    with c u show "fst (update_fw_from_repo E i module) \<noteq> Exits share_mnt_error"
      by (simp add: repo_outcome_Exits try_body_mount_exit)
    from c u ok
    show calls: "snd (snd (update_fw_from_repo E i module)) =
              snd (update_fw_from_nw_share E (generation_fix i)
                     (share_name module) (share_user module) (share_pwd module)
                     (catalog_file_name module) (apply_update module) (reboot module)
                     (job_wait module))"
      by (auto simp: repo_calls try_body_calls)
    show "\<exists>rest. snd (snd (update_fw_from_repo E i module)) =
                 FileOnShare \<lparr>fs_remote = share_name module, fs_isFolder = True,
                              fs_user = share_user module, fs_pwd = share_pwd module,
                              fs_file = catalog_file_name module\<rparr> # rest"
      unfolding calls using nw_calls by blast
  }
qed

theorem c7_mount_point_required_for_redfish_witness:
  "update_fw_from_repo (example_env (Inl ''unused'') (Inr (PDict job_success))) example_session
     (example_params ''192.168.10.10:/share'' ''Catalog.xml'' None) =
   (Exits share_mnt_error, generation_fix example_session, [])
   \<and> fst (update_fw_from_repo (example_env (Inl ''unused'') (Inr (PDict job_success))) example_session
       (example_params ''192.168.10.10:/share'' ''Catalog.xml'' (Some ''/mnt/share''))) \<noteq>
     Exits share_mnt_error"
proof -
  have "share_mnt (example_params ''192.168.10.10:/share'' ''Catalog.xml'' None) = None"
    by (simp add: example_params_sel)
  with c7_mount_point_required_for_redfish[
      OF catalog_xml_lower[of "''192.168.10.10:/share''" None]
         example_nfs_prefix[of "''Catalog.xml''" None],
      where i = example_session
        and E = "example_env (Inl ''unused'') (Inr (PDict job_success))"]
    example_session_redfish
  have a: "update_fw_from_repo (example_env (Inl ''unused'') (Inr (PDict job_success))) example_session
     (example_params ''192.168.10.10:/share'' ''Catalog.xml'' None) =
   (Exits share_mnt_error, generation_fix example_session, [])"
    by blast
  have "\<exists>s. share_mnt (example_params ''192.168.10.10:/share'' ''Catalog.xml'' (Some ''/mnt/share''))
          = Some s \<and> s \<noteq> []"
    by (simp add: example_params_sel)
  with c7_mount_point_required_for_redfish[
      OF catalog_xml_lower[of "''192.168.10.10:/share''" "Some ''/mnt/share''"]
         example_nfs_prefix[of "''Catalog.xml''" "Some ''/mnt/share''"],
      where i = example_session
        and E = "example_env (Inl ''unused'') (Inr (PDict job_success))"]
  have b: "fst (update_fw_from_repo (example_env (Inl ''unused'') (Inr (PDict job_success))) example_session
       (example_params ''192.168.10.10:/share'' ''Catalog.xml'' (Some ''/mnt/share''))) \<noteq>
     Exits share_mnt_error"
    by blast
  from a b show ?thesis by blast
qed

text \<open>
  The claim as stated lets the update proceed whenever \<^verbatim>\<open>share_mnt\<close> is supplied. The
  module tests \<^verbatim>\<open>not module.params.get('share_mnt')\<close>, which is also true of the empty
  string: with \<^verbatim>\<open>share_mnt: ""\<close> supplied on a Redfish session, the run stops at the
  mount-point failure.
\<close>

theorem c7_empty_mount_point_counterexample:
  "share_mnt (example_params ''192.168.10.10:/share'' ''Catalog.xml'' (Some [])) = Some []
   \<and> update_fw_from_repo (example_env (Inl ''unused'') (Inr (PDict job_success))) example_session
       (example_params ''192.168.10.10:/share'' ''Catalog.xml'' (Some [])) =
     (Exits share_mnt_error, example_session, [])"
  by (simp add: example_nfs_empty_mount example_params_sel)

text \<open>
  \<^bold>\<open>C8.\<close> For a URL that passes the validation of \<^verbatim>\<open>update_fw_from_url\<close> (a scheme of
  \<open>schemes\<close>, a non-empty host matched by \<open>ipv4_re\<close>), exactly one call is made, and its
  \<^verbatim>\<open>share_name\<close> is the parsed path when that is not empty and \<^verbatim>\<open>/\<close> when it is; it is
  never empty.
\<close>

theorem c8_empty_path_becomes_slash:
  assumes "urlparse E sname = Inr (Some p)"
    and "scheme p \<in> set schemes"
    and "netloc p \<noteq> []"
    and "re_match ipv4_re (netloc p)"
  shows "\<exists>rq r. snd (update_fw_from_url E i sname suser spwd catalog applyu rboot jwait icw) =
                  [UpdateFromRepoUrl i rq r]
           \<and> rq_share_name rq = (if path p = [] then ''/'' else path p)
           \<and> rq_share_name rq \<noteq> []"
  using assms by (simp add: update_fw_from_url_def Let_def)

theorem c8_empty_path_becomes_slash_witness:
  "\<exists>rq r. snd (update_fw_from_url (example_env (Inr (Some parsed_root)) (Inr (PDict job_success)))
               example_session ''http://192.168.10.10'' None None ''Catalog.xml''
               True False True True) =
            [UpdateFromRepoUrl example_session rq r]
     \<and> rq_share_name rq = ''/''"
proof -
  have p: "urlparse (example_env (Inr (Some parsed_root)) (Inr (PDict job_success)))
             ''http://192.168.10.10'' = Inr (Some parsed_root)"
    by (simp add: example_env_def)
  have s: "scheme parsed_root \<in> set schemes"
    by (simp add: parsed_root_def schemes_def)
  have n: "netloc parsed_root \<noteq> []"
    by (simp add: parsed_root_def)
  have m: "re_match ipv4_re (netloc parsed_root)"
    by (simp add: parsed_root_def regex_defs)
  have e: "path parsed_root = []"
    by (simp add: parsed_root_def)
  from c8_empty_path_becomes_slash[OF p s n m, of example_session None None
      "''Catalog.xml''" True False True True] e
  show ?thesis by auto
qed

text \<open>
  \<^bold>\<open>C9.\<close> The claim: on the URL branch \<^verbatim>\<open>ignore_cert_warning\<close> is forwarded to the
  update call. \<^verbatim>\<open>update_fw_from_repo\<close> hands it to \<^verbatim>\<open>update_fw_from_url\<close>, which
  never uses it: the keyword arguments of \<^verbatim>\<open>update_from_repo_url\<close> do not include it.
  What the helper and the whole function do, calls included, is the same for both
  values of the flag.
\<close>

theorem c9_ignore_cert_warning_dropped:
  "update_fw_from_url E i sname suser spwd catalog applyu rboot jwait True =
   update_fw_from_url E i sname suser spwd catalog applyu rboot jwait False
   \<and> update_fw_from_repo E i (module\<lparr>ignore_cert_warning := True\<rparr>) =
     update_fw_from_repo E i (module\<lparr>ignore_cert_warning := False\<rparr>)"
  by (simp add: update_fw_from_url_def update_fw_from_repo_def
      try_body_ignore_cert_warning[where b = True and b' = False])

text \<open>
  \<^bold>\<open>C10.\<close> When \<^verbatim>\<open>update_fw_from_repo\<close> returns \<^verbatim>\<open>(msg, err)\<close>, \<open>err\<close> is true exactly when
  the \<^verbatim>\<open>try\<close> statement raised an exception. So when an update call answered with a
  dictionary whose \<^verbatim>\<open>Status\<close> is not \<^verbatim>\<open>"Success"\<close>, the function returns \<open>failed\<close> true
  with \<open>err\<close> false, and \<^verbatim>\<open>main\<close> (SDK present, connection made, disconnection without
  fault) ends in \<^verbatim>\<open>exit_json\<close> with that result, not in \<^verbatim>\<open>fail_json\<close>.
\<close>

theorem c10_err_only_for_caught_exceptions:
  "(\<forall>m err. fst (update_fw_from_repo E i module) = Returns (m, err) \<longrightarrow>
      (err \<longleftrightarrow> (\<exists>e. fst (try_body E i module msg0) = Raises e)))
   \<and> (\<forall>d v out i' cs.
        update_fw_from_repo E i module = (out, i', cs)
        \<and> Inr (PDict d) \<in> set (responses cs)
        \<and> map_of d ''Status'' = Some v \<and> v \<noteq> PStr ''Success'' \<longrightarrow>
        out = Returns (\<lparr>changed = False, failed = True, msg = PDict d\<rparr>, False)
        \<and> (HAS_OMSDK E \<and> connect E module = Returns i \<and> disconnect E i' = None \<longrightarrow>
             main E module =
               (Exits (ExitJson (kwargs \<lparr>changed = False, failed = True, msg = PDict d\<rparr>)), cs)))"
proof (intro conjI allI impI)
  fix m err
  assume "fst (update_fw_from_repo E i module) = Returns (m, err)"
  then show "err \<longleftrightarrow> (\<exists>e. fst (try_body E i module msg0) = Raises e)"
    by (rule repo_err_iff)
next
  fix d v out i' cs
  assume a: "update_fw_from_repo E i module = (out, i', cs)
        \<and> Inr (PDict d) \<in> set (responses cs)
        \<and> map_of d ''Status'' = Some v \<and> v \<noteq> PStr ''Success''"
  then have "Inr (PDict d) \<in> set (responses (snd (snd (update_fw_from_repo E i module))))"
    by simp
  from repo_response_dict[OF this] a
  show out: "out = Returns (\<lparr>changed = False, failed = True, msg = PDict d\<rparr>, False)"
    by simp
  assume h: "HAS_OMSDK E \<and> connect E module = Returns i \<and> disconnect E i' = None"
  from a out have "update_fw_from_repo E i module =
      (Returns (\<lparr>changed = False, failed = True, msg = PDict d\<rparr>, False), i', cs)"
    by simp
  from main_reports[OF _ _ this] h
  show "main E module =
               (Exits (ExitJson (kwargs \<lparr>changed = False, failed = True, msg = PDict d\<rparr>)), cs)"
    by simp
qed

theorem c10_err_only_for_caught_exceptions_witness:
  "main (example_env (Inr (Some parsed_root)) (Inr (PDict job_failed)))
     (example_params ''http://192.168.10.10'' ''Catalog.xml'' None) =
   (Exits (ExitJson (kwargs \<lparr>changed = False, failed = True, msg = PDict job_failed\<rparr>)),
    [UpdateFromRepoUrl \<lparr>ServerGeneration = ''14G Monolithic'', use_redfish = False\<rparr>
       \<lparr>rq_ipaddress = ''192.168.10.10'', rq_share_type = ''http'', rq_share_name = ''/'',
        rq_share_user = None, rq_share_pwd = None, rq_catalog_file = ''Catalog.xml'',
        rq_apply_update = True, rq_reboot_needed = False, rq_job_wait = True\<rparr>
       (Inr (PDict job_failed))])"
proof -
  let ?E = "example_env (Inr (Some parsed_root)) (Inr (PDict job_failed))"
  let ?cs = "[UpdateFromRepoUrl \<lparr>ServerGeneration = ''14G Monolithic'', use_redfish = False\<rparr>
       \<lparr>rq_ipaddress = ''192.168.10.10'', rq_share_type = ''http'', rq_share_name = ''/'',
        rq_share_user = None, rq_share_pwd = None, rq_catalog_file = ''Catalog.xml'',
        rq_apply_update = True, rq_reboot_needed = False, rq_job_wait = True\<rparr>
       (Inr (PDict job_failed))]"
  have resp: "Inr (PDict job_failed) \<in> set (responses ?cs)"
    by (simp add: responses_def)
  have st: "map_of job_failed ''Status'' = Some (PStr ''Failed'')" "PStr ''Failed'' \<noteq> PStr ''Success''"
    by (simp_all add: job_failed_def)
  have env: "HAS_OMSDK ?E"
    "connect ?E (example_params ''http://192.168.10.10'' ''Catalog.xml'' None) = Returns example_session"
    "disconnect ?E \<lparr>ServerGeneration = ''14G Monolithic'', use_redfish = False\<rparr> = None"
    by (simp_all add: example_env_def example_session_def)
  from c10_err_only_for_caught_exceptions[of ?E example_session
      "example_params ''http://192.168.10.10'' ''Catalog.xml'' None"]
    example_url_failed resp st env
  show ?thesis by blast
qed

end
